theory Spec2Isabelle
  imports Main
begin

section \<open>The process and what can be observed of it\<close>

text \<open>
  \<^verbatim>\<open>simple_server.py\<close> is a script of four statements: it sets \<^verbatim>\<open>PORT = 8000\<close>, names
  \<^verbatim>\<open>http.server.SimpleHTTPRequestHandler\<close> as \<^verbatim>\<open>Handler\<close>, constructs a
  \<^verbatim>\<open>socketserver.TCPServer\<close> on \<^verbatim>\<open>("", PORT)\<close> inside a \<^verbatim>\<open>with\<close> block, prints
  \<^verbatim>\<open>good morning\<close> and calls \<^verbatim>\<open>serve_forever()\<close>.

  The script reads nothing itself. What the operating system and the network do to it is
  collected in a \<open>world\<close> (whether \<^verbatim>\<open>bind\<close> and \<^verbatim>\<open>listen\<close> fail, and the command line
  and environment the process was started with) and in the list of events that reach the
  serve loop. What the process does is recorded as a list of actions in the order in
  which they happen.
\<close>

type_synonym address = "string \<times> nat"

text \<open>
  Exceptions as values. \<^verbatim>\<open>OSError\<close> carries its errno. \<^verbatim>\<open>KeyboardInterrupt\<close> derives from
  \<^verbatim>\<open>BaseException\<close> only; the two others derive from \<^verbatim>\<open>Exception\<close>.
\<close>

datatype exn = OSError nat | KeyboardInterrupt | OtherException string

fun is_Exception :: "exn \<Rightarrow> bool" where
  "is_Exception KeyboardInterrupt = False"
| "is_Exception (OSError n) = True"
| "is_Exception (OtherException s) = True"

record world =
  bind_error :: "address \<Rightarrow> nat option"
  listen_error :: "nat option"
  argv :: "string list"
  environ :: "(string \<times> string) list"

datatype 'resp action =
    SockBind address
  | SockListen
  | SockClose
  | Print string
  | EnterServe
  | Respond 'resp
  | HandleError exn
  | CloseRequest
  | Traceback exn

datatype status = Serving | Exited nat

record 'resp process =
  trace :: "'resp action list"
  status :: status

datatype ('req, 'resp) event =
    Accept 'req
  | AcceptFails nat
  | Interrupt

section \<open>The standard library's server, as far as the script drives it\<close>

text \<open>
  \<^verbatim>\<open>TCPServer.__init__\<close> creates the socket and, \<^verbatim>\<open>bind_and_activate\<close> being left at its
  default, runs
  \<^verbatim>\<open>
    try:
        self.server_bind()
        self.server_activate()
    except:
        self.server_close()
        raise
  \<close>
  where \<^verbatim>\<open>server_bind\<close> is \<^verbatim>\<open>self.socket.bind(self.server_address)\<close>, \<^verbatim>\<open>server_activate\<close>
  is \<^verbatim>\<open>self.socket.listen(...)\<close> and \<^verbatim>\<open>server_close\<close> is \<^verbatim>\<open>self.socket.close()\<close>.
  The result is the exception raised, or nothing, together with the actions performed.
\<close>

definition TCPServer_init :: "world \<Rightarrow> address \<Rightarrow> exn option \<times> 'resp action list" where
  "TCPServer_init w server_address =
     (case bind_error w server_address of
        Some errno \<Rightarrow> (Some (OSError errno), [SockBind server_address, SockClose])
      | None \<Rightarrow>
          (case listen_error w of
             Some errno \<Rightarrow> (Some (OSError errno), [SockBind server_address, SockListen, SockClose])
           | None \<Rightarrow> (None, [SockBind server_address, SockListen])))"

text \<open>
  \<^verbatim>\<open>BaseServer._handle_request_noblock\<close>:
  \<^verbatim>\<open>
    try:
        request, client_address = self.get_request()
    except OSError:
        return
    if self.verify_request(request, client_address):
        try:
            self.process_request(request, client_address)
        except Exception:
            self.handle_error(request, client_address)
            self.shutdown_request(request)
        except:
            self.shutdown_request(request)
            raise
    else:
        self.shutdown_request(request)
  \<close>
  \<^verbatim>\<open>verify_request\<close> returns \<^verbatim>\<open>True\<close>; \<^verbatim>\<open>process_request\<close> runs the handler class on the
  connection and then \<^verbatim>\<open>shutdown_request\<close>. The handler is a parameter here: it answers
  a request or raises.
\<close>

type_synonym ('req, 'resp) handler = "'req \<Rightarrow> exn + 'resp"

definition handle_request_noblock ::
  "('req, 'resp) handler \<Rightarrow> 'req \<Rightarrow> exn option \<times> 'resp action list" where
  "handle_request_noblock h request =
     (case h request of
        Inr resp \<Rightarrow> (None, [Respond resp, CloseRequest])
      | Inl e \<Rightarrow>
          if is_Exception e then (None, [HandleError e, CloseRequest])
          else (Some e, [CloseRequest]))"

text \<open>
  \<^verbatim>\<open>BaseServer.serve_forever\<close> loops \<^verbatim>\<open>while not self.__shutdown_request\<close>; nothing in the
  script calls \<^verbatim>\<open>shutdown()\<close>, so the loop is left only by an exception. Over the events
  that have arrived so far it either is still waiting in \<^verbatim>\<open>select\<close> (no exception) or has
  raised. An interrupt raises \<^verbatim>\<open>KeyboardInterrupt\<close> in the main thread, which is the thread
  of the loop. A failed \<^verbatim>\<open>accept\<close> is the \<^verbatim>\<open>except OSError: return\<close> above.
\<close>

fun serve_forever ::
  "('req, 'resp) handler \<Rightarrow> ('req, 'resp) event list \<Rightarrow> exn option \<times> 'resp action list" where
  "serve_forever h [] = (None, [])"
| "serve_forever h (Interrupt # evs) = (Some KeyboardInterrupt, [])"
| "serve_forever h (AcceptFails errno # evs) = serve_forever h evs"
| "serve_forever h (Accept request # evs) =
     (case handle_request_noblock h request of
        (Some e, acts) \<Rightarrow> (Some e, acts)
      | (None, acts) \<Rightarrow>
          (case serve_forever h evs of (r, acts') \<Rightarrow> (r, acts @ acts')))"

section \<open>The script\<close>

definition PORT :: nat where
  "PORT = 8000"

text \<open>
  An exception that nothing catches ends the interpreter: it writes the traceback to
  standard error and exits with status 1. For \<^verbatim>\<open>KeyboardInterrupt\<close> CPython (3.8 and later)
  ends the process through the default action of SIGINT, which a shell reports as 130.
\<close>

fun exit_status :: "exn \<Rightarrow> nat" where
  "exit_status KeyboardInterrupt = 130"
| "exit_status (OSError n) = 1"
| "exit_status (OtherException s) = 1"

definition uncaught :: "exn \<Rightarrow> 'resp action list \<Rightarrow> 'resp process" where
  "uncaught e acts = \<lparr>trace = acts @ [Traceback e], status = Exited (exit_status e)\<rparr>"

text \<open>
  \<^verbatim>\<open>
    with socketserver.TCPServer(("", PORT), Handler) as httpd:
        print("good morning")
        httpd.serve_forever()
  \<close>
  The constructor runs before the block is entered, so an exception of the constructor
  goes straight to the top level. \<^verbatim>\<open>__exit__\<close> is \<^verbatim>\<open>self.server_close()\<close> and returns
  \<^verbatim>\<open>None\<close>: the socket is closed and an exception of the body goes on to the top level.
\<close>

definition main :: "('req, 'resp) handler \<Rightarrow> world \<Rightarrow> ('req, 'resp) event list \<Rightarrow> 'resp process" where
  "main Handler w evs =
     (case TCPServer_init w ('''', PORT) of
        (Some e, acts) \<Rightarrow> uncaught e acts
      | (None, acts) \<Rightarrow>
          (case serve_forever Handler evs of
             (Some e, acts') \<Rightarrow>
               uncaught e (acts @ [Print ''good morning'', EnterServe] @ acts' @ [SockClose])
           | (None, acts') \<Rightarrow>
               \<lparr>trace = acts @ [Print ''good morning'', EnterServe] @ acts', status = Serving\<rparr>))"

section \<open>The handler: \<^verbatim>\<open>http.server.SimpleHTTPRequestHandler\<close>\<close>

text \<open>
  \<^verbatim>\<open>Handler = http.server.SimpleHTTPRequestHandler\<close> hands every connection to the standard
  library. The definitions of this section are a translation of the methods of that
  class and of its base \<^verbatim>\<open>BaseHTTPRequestHandler\<close> (CPython 3.11, \<^verbatim>\<open>Lib/http/server.py\<close>)
  that decide which file is read and which status is sent, and of the functions of
  \<^verbatim>\<open>posixpath\<close> they call. A Python \<^verbatim>\<open>str\<close> is a \<open>string\<close>; the request line is decoded as
  ISO 8859-1, so every character of it is one byte.
\<close>

subsection \<open>String functions\<close>

text \<open>\<^verbatim>\<open>str.isspace\<close> on the characters of ISO 8859-1.\<close>

definition isspace :: "char \<Rightarrow> bool" where
  "isspace c = ((of_char c :: nat) \<in> {9, 10, 11, 12, 13, 28, 29, 30, 31, 32, 133, 160})"

definition rstrip :: "string \<Rightarrow> string" where
  "rstrip s = rev (dropWhile isspace (rev s))"

definition endswith :: "string \<Rightarrow> string \<Rightarrow> bool" where
  "endswith s suffix = (length suffix \<le> length s \<and> drop (length s - length suffix) s = suffix)"

definition startswith :: "string \<Rightarrow> string \<Rightarrow> bool" where
  "startswith s prefix = (take (length prefix) s = prefix)"

text \<open>\<^verbatim>\<open>s.split(sep)\<close> for a separator of one character: the result is never empty.\<close>

fun split_sep :: "char \<Rightarrow> string \<Rightarrow> string list" where
  "split_sep sep [] = [[]]"
| "split_sep sep (c # s) =
     (if c = sep then [] # split_sep sep s
      else (case split_sep sep s of
              [] \<Rightarrow> [[c]]
            | w # ws \<Rightarrow> (c # w) # ws))"

text \<open>\<^verbatim>\<open>s.split(sep, 1)[0]\<close>: what stands before the first separator.\<close>

definition split_first :: "char \<Rightarrow> string \<Rightarrow> string" where
  "split_first sep s = takeWhile (\<lambda>c. c \<noteq> sep) s"

text \<open>\<^verbatim>\<open>s.split()\<close>: the words between runs of white space; \<open>cur\<close> is the word being read.\<close>

fun split_ws :: "string \<Rightarrow> string \<Rightarrow> string list" where
  "split_ws cur [] = (if cur = [] then [] else [cur])"
| "split_ws cur (c # s) =
     (if isspace c then (if cur = [] then split_ws [] s else cur # split_ws [] s)
      else split_ws (cur @ [c]) s)"

fun sep_join :: "string \<Rightarrow> string list \<Rightarrow> string" where
  "sep_join sep [] = []"
| "sep_join sep [w] = w"
| "sep_join sep (w # ws) = w @ sep @ sep_join sep ws"

text \<open>\<^verbatim>\<open>str(n)\<close> for a length.\<close>

fun str_nat :: "nat \<Rightarrow> string" where
  "str_nat n =
     (if n < 10 then [char_of (48 + n)]
      else str_nat (n div 10) @ [char_of (48 + n mod 10)])"

declare str_nat.simps [simp del]

text \<open>
  \<^verbatim>\<open>int(s)\<close> where \<^verbatim>\<open>s.isdigit()\<close> holds. Of the characters of ISO 8859-1 the digits
  \<^verbatim>\<open>0\<close> to \<^verbatim>\<open>9\<close> and three superscripts satisfy \<^verbatim>\<open>isdigit\<close>; on a superscript \<^verbatim>\<open>int\<close> raises
  \<^verbatim>\<open>ValueError\<close>, which is the exception of a failed \<^verbatim>\<open>isdigit\<close> test too. So the result is
  \<open>None\<close>, for \<^verbatim>\<open>ValueError\<close>, unless the string is a non-empty string of \<^verbatim>\<open>0\<close> to \<^verbatim>\<open>9\<close>.
\<close>

definition is_ascii_digit :: "char \<Rightarrow> bool" where
  "is_ascii_digit c = (48 \<le> (of_char c :: nat) \<and> (of_char c :: nat) \<le> 57)"

definition int_of_digits :: "string \<Rightarrow> nat option" where
  "int_of_digits s =
     (if s \<noteq> [] \<and> list_all is_ascii_digit s
      then Some (foldl (\<lambda>n c. 10 * n + (of_char c - 48)) 0 s)
      else None)"

subsection \<open>\<^verbatim>\<open>posixpath\<close> and \<^verbatim>\<open>urllib.parse.unquote\<close>\<close>

text \<open>
  \<^verbatim>\<open>posixpath.normpath\<close>. The loop body is
  \<^verbatim>\<open>
    if comp in (empty, dot):
        continue
    if (comp != dotdot or (not initial_slashes and not new_comps) or
         (new_comps and new_comps[-1] == dotdot)):
        new_comps.append(comp)
    elif new_comps:
        new_comps.pop()
  \<close>
\<close>

definition normpath_step :: "bool \<Rightarrow> string list \<Rightarrow> string \<Rightarrow> string list" where
  "normpath_step initial_slashes new_comps part =
     (if part = '''' \<or> part = ''.'' then new_comps
      else if part \<noteq> ''..'' \<or> (\<not> initial_slashes \<and> new_comps = [])
              \<or> (new_comps \<noteq> [] \<and> last new_comps = ''..'')
           then new_comps @ [part]
      else if new_comps \<noteq> [] then butlast new_comps
      else new_comps)"

definition normpath :: "string \<Rightarrow> string" where
  "normpath path =
     (if path = '''' then ''.''
      else
        let initial_slashes = startswith path ''/'';
            n = (if initial_slashes \<and> startswith path ''//'' \<and> \<not> startswith path ''///''
                 then 2 else if initial_slashes then 1 else 0);
            comps = foldl (normpath_step initial_slashes) [] (split_sep CHR ''/'' path);
            p = replicate n CHR ''/'' @ sep_join ''/'' comps
        in if p = '''' then ''.'' else p)"

text \<open>\<^verbatim>\<open>posixpath.join(path, b)\<close> with one component.\<close>

definition os_path_join :: "string \<Rightarrow> string \<Rightarrow> string" where
  "os_path_join path b =
     (if startswith b ''/'' then b
      else if path = '''' \<or> endswith path ''/'' then path @ b
      else path @ ''/'' @ b)"

text \<open>
  \<^verbatim>\<open>urllib.parse.unquote\<close> returns a string without \<^verbatim>\<open>%\<close> as it is. The decoding of the
  escapes (to bytes, then from UTF-8) is the parameter \<open>pct_decode\<close>.
\<close>

definition unquote :: "(string \<Rightarrow> string) \<Rightarrow> string \<Rightarrow> string" where
  "unquote pct_decode s = (if CHR ''%'' \<in> set s then pct_decode s else s)"

subsection \<open>\<^verbatim>\<open>translate_path\<close>\<close>

text \<open>
  \<^verbatim>\<open>
    path = path.split('?',1)[0]
    path = path.split('#',1)[0]
    trailing_slash = path.rstrip().endswith('/')
    try:
        path = urllib.parse.unquote(path, errors='surrogatepass')
    except UnicodeDecodeError:
        path = urllib.parse.unquote(path)
    path = posixpath.normpath(path)
    words = path.split('/')
    words = filter(None, words)
    path = self.directory
    for word in words:
        if os.path.dirname(word) or word in (os.curdir, os.pardir):
            # Ignore components that are not a simple file/directory name
            continue
        path = os.path.join(path, word)
    if trailing_slash:
        path += '/'
    return path
  \<close>
  \<^verbatim>\<open>os.path.dirname(word)\<close> is not empty exactly when \<^verbatim>\<open>word\<close> contains a \<^verbatim>\<open>/\<close>.
\<close>

definition translate_step :: "string \<Rightarrow> string \<Rightarrow> string" where
  "translate_step path word =
     (if CHR ''/'' \<in> set word \<or> word = ''.'' \<or> word = ''..'' then path
      else os_path_join path word)"

definition translate_path :: "(string \<Rightarrow> string) \<Rightarrow> string \<Rightarrow> string \<Rightarrow> string" where
  "translate_path pct_decode directory path =
     (let path1 = split_first CHR ''#'' (split_first CHR ''?'' path);
          trailing_slash = endswith (rstrip path1) ''/'';
          path2 = normpath (unquote pct_decode path1);
          words = filter (\<lambda>w. w \<noteq> '''') (split_sep CHR ''/'' path2);
          path3 = foldl translate_step directory words
      in if trailing_slash then path3 @ ''/'' else path3)"

subsection \<open>Requests, responses and what the handler is given\<close>

text \<open>
  What a connection delivers: the first line as \<^verbatim>\<open>rfile.readline(65537)\<close> returns it, the
  outcome of \<^verbatim>\<open>http.client.parse_headers\<close> (the message of its exception, or the two
  headers \<^verbatim>\<open>send_head\<close> looks at), and the errno of a socket error, if reading or writing
  fails. \<open>if_modified_since\<close> is the time of the header \<^verbatim>\<open>If-Modified-Since\<close> in seconds
  when the header is there, parses as a date and is in UTC, and \<open>None\<close> otherwise.
\<close>

record headers_in =
  if_modified_since :: "int option"
  if_none_match :: bool

record conn =
  raw_requestline :: string
  parsed_headers :: "string + headers_in"
  io_error :: "nat option"

record request =
  command :: string
  request_path :: string
  request_version :: string
  request_headers :: headers_in

text \<open>
  A response is what reaches the connection: the code of the status line, if a status
  line is written, the headers, and the bytes written after them. The headers \<^verbatim>\<open>Server\<close>
  and \<^verbatim>\<open>Date\<close>, which \<^verbatim>\<open>send_response\<close> adds to every status line, are left out.
\<close>

record response =
  code :: "nat option"
  headers :: "(string \<times> string) list"
  body :: string

text \<open>
  \<^verbatim>\<open>send_response_only\<close>, \<^verbatim>\<open>send_header\<close> and \<^verbatim>\<open>end_headers\<close> each start with
  \<^verbatim>\<open>if self.request_version != 'HTTP/0.9':\<close>. While \<^verbatim>\<open>request_version\<close> is
  \<^verbatim>\<open>HTTP/0.9\<close>, neither the status line nor a header is written, only the body.
\<close>

definition wire :: "string \<Rightarrow> nat \<Rightarrow> (string \<times> string) list \<Rightarrow> string \<Rightarrow> response" where
  "wire version c hs b =
     (if version = ''HTTP/0.9'' then \<lparr>code = None, headers = [], body = b\<rparr>
      else \<lparr>code = Some c, headers = hs, body = b\<rparr>)"

text \<open>
  The file system as the handler sees it, by path: \<^verbatim>\<open>os.path.isdir\<close>, \<^verbatim>\<open>os.path.isfile\<close>,
  \<^verbatim>\<open>os.path.islink\<close> (each \<^verbatim>\<open>False\<close> where the look-up fails), \<^verbatim>\<open>open(path, 'rb')\<close> with
  \<^verbatim>\<open>os.fstat\<close> (the exception, or the bytes of the file and its modification time in
  whole seconds) and \<^verbatim>\<open>os.listdir\<close>. \<^verbatim>\<open>open\<close> and \<^verbatim>\<open>listdir\<close> raise an \<^verbatim>\<open>OSError\<close> for a path
  that the system refuses, and a \<^verbatim>\<open>ValueError\<close> for a path with a NUL character. Both
  follow symbolic links.
\<close>

record file_obj =
  contents :: string
  st_mtime :: int

record os =
  isdir :: "string \<Rightarrow> bool"
  isfile :: "string \<Rightarrow> bool"
  islink :: "string \<Rightarrow> bool"
  open_rb :: "string \<Rightarrow> exn + file_obj"
  listdir :: "string \<Rightarrow> exn + string list"

fun is_OSError :: "exn \<Rightarrow> bool" where
  "is_OSError (OSError n) = True"
| "is_OSError KeyboardInterrupt = False"
| "is_OSError (OtherException s) = False"

text \<open>
  The calls to the file system that the handler makes, in their order. There is
  no call among them that creates, writes or removes anything: the handler has no
  such call.
\<close>

datatype fs_call = Isdir string | Isfile string | Islink string | Open_rb string | Listdir string

text \<open>
  The functions of the library that only format text or parse a URL are parameters:
  the decoding of \<^verbatim>\<open>%\<close> escapes, the path component of \<^verbatim>\<open>urllib.parse.urlsplit\<close>
  (\<open>None\<close> when it raises \<^verbatim>\<open>ValueError\<close>), the \<^verbatim>\<open>Location\<close> of the redirect,
  \<^verbatim>\<open>guess_type\<close>, the page of \<^verbatim>\<open>send_error\<close> (from the code, the format of the message and
  its argument), the page of \<^verbatim>\<open>list_directory\<close> (from the request path and, for every
  name, whether it is a directory and whether it is a link), \<^verbatim>\<open>date_time_string\<close> and
  \<^verbatim>\<open>sys.getfilesystemencoding()\<close>.
\<close>

record lib =
  pct_decode :: "string \<Rightarrow> string"
  urlsplit_path :: "string \<Rightarrow> string option"
  redirect_url :: "string \<Rightarrow> string"
  guess_type :: "string \<Rightarrow> string"
  error_page :: "nat \<Rightarrow> string \<Rightarrow> string \<Rightarrow> string"
  render_listing :: "string \<Rightarrow> (string \<times> bool \<times> bool) list \<Rightarrow> string"
  date_time_string :: "int \<Rightarrow> string"
  filesystemencoding :: string

subsection \<open>\<^verbatim>\<open>send_error\<close>\<close>

text \<open>
  \<^verbatim>\<open>
    self.send_response(code, message)
    self.send_header('Connection', 'close')
    body = None
    if (code >= 200 and
        code not in (HTTPStatus.NO_CONTENT,
                     HTTPStatus.RESET_CONTENT,
                     HTTPStatus.NOT_MODIFIED)):
        content = (self.error_message_format % {...})
        body = content.encode('UTF-8', 'replace')
        self.send_header("Content-Type", self.error_content_type)
        self.send_header('Content-Length', str(len(body)))
    self.end_headers()
    if self.command != 'HEAD' and body:
        self.wfile.write(body)
  \<close>
  \<open>version\<close> is \<^verbatim>\<open>self.request_version\<close> and \<open>cmd\<close> is \<^verbatim>\<open>self.command\<close>, which is \<^verbatim>\<open>None\<close> until
  the request line is parsed.
\<close>

definition send_error ::
  "lib \<Rightarrow> string \<Rightarrow> string option \<Rightarrow> nat \<Rightarrow> string \<Rightarrow> string \<Rightarrow> response" where
  "send_error l version cmd c message arg =
     (if c \<ge> 200 \<and> c \<noteq> 204 \<and> c \<noteq> 205 \<and> c \<noteq> 304 then
        let page = error_page l c message arg in
        wire version c
          [(''Connection'', ''close''),
           (''Content-Type'', ''text/html;charset=utf-8''),
           (''Content-Length'', str_nat (length page))]
          (if cmd \<noteq> Some ''HEAD'' then page else '''')
      else wire version c [(''Connection'', ''close'')] '''')"

subsection \<open>\<^verbatim>\<open>send_head\<close>, \<^verbatim>\<open>list_directory\<close>, \<^verbatim>\<open>do_GET\<close> and \<^verbatim>\<open>do_HEAD\<close>\<close>

text \<open>
  The results of \<^verbatim>\<open>send_head\<close> and \<^verbatim>\<open>list_directory\<close> are the calls made to the file
  system and either the exception that leaves the method, or the response sent so far
  with the bytes of the file object returned, if one is returned.

  \<^verbatim>\<open>list_directory\<close>:
  \<^verbatim>\<open>
    try:
        list = os.listdir(path)
    except OSError:
        self.send_error(HTTPStatus.NOT_FOUND, "No permission to list directory")
        return None
    ...
    for name in list:
        fullname = os.path.join(path, name)
        displayname = linkname = name
        if os.path.isdir(fullname):
            ...
        if os.path.islink(fullname):
            ...
    self.send_response(HTTPStatus.OK)
    self.send_header("Content-type", "text/html; charset=%s" % enc)
    self.send_header("Content-Length", str(len(encoded)))
    self.end_headers()
    return f
  \<close>
\<close>

definition list_directory ::
  "lib \<Rightarrow> os \<Rightarrow> request \<Rightarrow> string \<Rightarrow> fs_call list \<times> (exn + response \<times> string option)" where
  "list_directory l fs req path =
     (case listdir fs path of
        Inl e \<Rightarrow>
          ([Listdir path],
           if is_OSError e then
             Inr (send_error l (request_version req) (Some (command req)) 404
                    ''No permission to list directory'' '''', None)
           else Inl e)
      | Inr names \<Rightarrow>
          let encoded = render_listing l (request_path req)
                (map (\<lambda>name. (name, isdir fs (os_path_join path name),
                                 islink fs (os_path_join path name))) names)
          in (Listdir path
                # concat (map (\<lambda>name. [Isdir (os_path_join path name),
                                         Islink (os_path_join path name)]) names),
              Inr (wire (request_version req) 200
                     [(''Content-type'', ''text/html; charset='' @ filesystemencoding l),
                      (''Content-Length'', str_nat (length encoded))]
                     '''',
                   Some encoded)))"

text \<open>
  The condition under which \<^verbatim>\<open>send_head\<close> answers 304:
  \<^verbatim>\<open>
    if ("If-Modified-Since" in self.headers
            and "If-None-Match" not in self.headers):
        try:
            ims = email.utils.parsedate_to_datetime(self.headers["If-Modified-Since"])
        except (TypeError, IndexError, OverflowError, ValueError):
            pass
        else:
            ...
            if ims.tzinfo is datetime.timezone.utc:
                last_modif = datetime.datetime.fromtimestamp(fs.st_mtime, datetime.timezone.utc)
                last_modif = last_modif.replace(microsecond=0)
                if last_modif <= ims:
  \<close>
\<close>

definition not_modified :: "headers_in \<Rightarrow> file_obj \<Rightarrow> bool" where
  "not_modified h f =
     (case if_modified_since h of
        Some ims \<Rightarrow> \<not> if_none_match h \<and> st_mtime f \<le> ims
      | None \<Rightarrow> False)"

text \<open>
  The second half of \<^verbatim>\<open>send_head\<close>, from \<^verbatim>\<open>ctype = self.guess_type(path)\<close> on:
  \<^verbatim>\<open>
    if path.endswith("/"):
        self.send_error(HTTPStatus.NOT_FOUND, "File not found")
        return None
    try:
        f = open(path, 'rb')
    except OSError:
        self.send_error(HTTPStatus.NOT_FOUND, "File not found")
        return None
    try:
        fs = os.fstat(f.fileno())
        if (...):
                        if last_modif <= ims:
                            self.send_response(HTTPStatus.NOT_MODIFIED)
                            self.end_headers()
                            f.close()
                            return None
        self.send_response(HTTPStatus.OK)
        self.send_header("Content-type", ctype)
        self.send_header("Content-Length", str(fs[6]))
        self.send_header("Last-Modified", self.date_time_string(fs.st_mtime))
        self.end_headers()
        return f
  \<close>
  Only \<^verbatim>\<open>OSError\<close> is caught: another exception of \<^verbatim>\<open>open\<close> leaves the method. \<^verbatim>\<open>fs[6]\<close> is
  the size of the file, the number of its bytes.
\<close>

definition send_file ::
  "lib \<Rightarrow> os \<Rightarrow> request \<Rightarrow> string \<Rightarrow> fs_call list \<times> (exn + response \<times> string option)" where
  "send_file l fs req path =
     (if endswith path ''/'' then
        ([], Inr (send_error l (request_version req) (Some (command req)) 404
                    ''File not found'' '''', None))
      else
        (case open_rb fs path of
           Inl e \<Rightarrow>
             ([Open_rb path],
              if is_OSError e then
                Inr (send_error l (request_version req) (Some (command req)) 404
                       ''File not found'' '''', None)
              else Inl e)
         | Inr f \<Rightarrow>
             ([Open_rb path],
              if not_modified (request_headers req) f then
                Inr (wire (request_version req) 304 [] '''', None)
              else
                Inr (wire (request_version req) 200
                       [(''Content-type'', guess_type l path),
                        (''Content-Length'', str_nat (length (contents f))),
                        (''Last-Modified'', date_time_string l (st_mtime f))]
                       '''',
                     Some (contents f)))))"

text \<open>
  The first half of \<^verbatim>\<open>send_head\<close>:
  \<^verbatim>\<open>
    path = self.translate_path(self.path)
    f = None
    if os.path.isdir(path):
        parts = urllib.parse.urlsplit(self.path)
        if not parts.path.endswith('/'):
            self.send_response(HTTPStatus.MOVED_PERMANENTLY)
            ...
            self.send_header("Location", new_url)
            self.send_header("Content-Length", "0")
            self.end_headers()
            return None
        for index in "index.html", "index.htm":
            index = os.path.join(path, index)
            if os.path.isfile(index):
                path = index
                break
        else:
            return self.list_directory(path)
  \<close>
\<close>

definition send_head ::
  "lib \<Rightarrow> os \<Rightarrow> string \<Rightarrow> request \<Rightarrow> fs_call list \<times> (exn + response \<times> string option)" where
  "send_head l fs directory req =
     (let path = translate_path (pct_decode l) directory (request_path req) in
      if isdir fs path then
        (case urlsplit_path l (request_path req) of
           None \<Rightarrow> ([Isdir path], Inl (OtherException ''ValueError''))
         | Some parts_path \<Rightarrow>
             if \<not> endswith parts_path ''/'' then
               ([Isdir path],
                Inr (wire (request_version req) 301
                       [(''Location'', redirect_url l (request_path req)),
                        (''Content-Length'', ''0'')]
                       '''',
                     None))
             else if isfile fs (os_path_join path ''index.html'') then
               (case send_file l fs req (os_path_join path ''index.html'') of
                  (calls, r) \<Rightarrow>
                    ([Isdir path, Isfile (os_path_join path ''index.html'')] @ calls, r))
             else if isfile fs (os_path_join path ''index.htm'') then
               (case send_file l fs req (os_path_join path ''index.htm'') of
                  (calls, r) \<Rightarrow>
                    ([Isdir path, Isfile (os_path_join path ''index.html''),
                      Isfile (os_path_join path ''index.htm'')] @ calls, r))
             else
               (case list_directory l fs req path of
                  (calls, r) \<Rightarrow>
                    ([Isdir path, Isfile (os_path_join path ''index.html''),
                      Isfile (os_path_join path ''index.htm'')] @ calls, r)))
      else
        (case send_file l fs req path of (calls, r) \<Rightarrow> (Isdir path # calls, r)))"

text \<open>
  \<^verbatim>\<open>
    def do_GET(self):
        f = self.send_head()
        if f:
            try:
                self.copyfile(f, self.wfile)
            finally:
                f.close()

    def do_HEAD(self):
        f = self.send_head()
        if f:
            f.close()
  \<close>
\<close>

definition do_GET :: "lib \<Rightarrow> os \<Rightarrow> string \<Rightarrow> request \<Rightarrow> fs_call list \<times> (exn + response)" where
  "do_GET l fs directory req =
     (case send_head l fs directory req of
        (calls, Inl e) \<Rightarrow> (calls, Inl e)
      | (calls, Inr (r, Some f)) \<Rightarrow> (calls, Inr (r\<lparr>body := body r @ f\<rparr>))
      | (calls, Inr (r, None)) \<Rightarrow> (calls, Inr r))"

definition do_HEAD :: "lib \<Rightarrow> os \<Rightarrow> string \<Rightarrow> request \<Rightarrow> fs_call list \<times> (exn + response)" where
  "do_HEAD l fs directory req =
     (case send_head l fs directory req of
        (calls, Inl e) \<Rightarrow> (calls, Inl e)
      | (calls, Inr (r, f)) \<Rightarrow> (calls, Inr r))"

subsection \<open>\<^verbatim>\<open>parse_request\<close> and \<^verbatim>\<open>handle_one_request\<close>\<close>

text \<open>
  The version of the request line:
  \<^verbatim>\<open>
    if not version.startswith('HTTP/'):
        raise ValueError
    base_version_number = version.split('/', 1)[1]
    version_number = base_version_number.split(".")
    if len(version_number) != 2:
        raise ValueError
    if any(not component.isdigit() for component in version_number):
        raise ValueError("non digit in http version")
    if any(len(component) > 10 for component in version_number):
        raise ValueError("unreasonable length http version")
    version_number = int(version_number[0]), int(version_number[1])
  \<close>
  \<open>None\<close> is the \<^verbatim>\<open>ValueError\<close>.
\<close>

definition parse_version :: "string \<Rightarrow> (nat \<times> nat) option" where
  "parse_version version =
     (if \<not> startswith version ''HTTP/'' then None
      else
        let version_number = split_sep CHR ''.'' (drop 5 version) in
        if length version_number \<noteq> 2 then None
        else if list_ex (\<lambda>component. int_of_digits component = None) version_number then None
        else if list_ex (\<lambda>component. length component > 10) version_number then None
        else
          (case (int_of_digits (version_number ! 0), int_of_digits (version_number ! 1)) of
             (Some major, Some minor) \<Rightarrow> Some (major, minor)
           | _ \<Rightarrow> None))"

text \<open>
  \<^verbatim>\<open>
    except (ValueError, IndexError):
        self.send_error(HTTPStatus.BAD_REQUEST, "Bad request version (%r)" % version)
        return False
    ...
    if version_number >= (2, 0):
        self.send_error(HTTPStatus.HTTP_VERSION_NOT_SUPPORTED,
                        "Invalid HTTP version (%s)" % base_version_number)
        return False
  \<close>
  Both errors are sent while \<^verbatim>\<open>self.request_version\<close> still has its first value,
  \<^verbatim>\<open>default_request_version = "HTTP/0.9"\<close>: \<^verbatim>\<open>self.request_version = version\<close> comes
  after them. The result is the error response, if the version is refused.
\<close>

definition check_version :: "lib \<Rightarrow> string \<Rightarrow> response option" where
  "check_version l version =
     (case parse_version version of
        None \<Rightarrow> Some (send_error l ''HTTP/0.9'' None 400 ''Bad request version (%r)'' version)
      | Some (major, minor) \<Rightarrow>
          if major > 2 \<or> (major = 2 \<and> minor \<ge> 0)
          then Some (send_error l ''HTTP/0.9'' None 505 ''Invalid HTTP version (%s)''
                       (drop 5 version))
          else None)"

text \<open>\<^verbatim>\<open>requestline.rstrip('\r\n')\<close>.\<close>

definition rstrip_crlf :: "string \<Rightarrow> string" where
  "rstrip_crlf s = rev (dropWhile (\<lambda>c. c = CHR 0x0D \<or> c = CHR 0x0A) (rev s))"

text \<open>
  \<^verbatim>\<open>parse_request\<close> returns \<^verbatim>\<open>False\<close> after it has sent an error response, or, for a line
  without a word, without sending anything (\<open>Inl\<close>, with the response if there is one);
  or it returns \<^verbatim>\<open>True\<close> and has set \<^verbatim>\<open>command\<close>, \<^verbatim>\<open>path\<close>, \<^verbatim>\<open>request_version\<close> and
  \<^verbatim>\<open>headers\<close> (\<open>Inr\<close>).
  \<^verbatim>\<open>
    self.command = None  # set in case of error on the first line
    self.request_version = version = self.default_request_version
    ...
    words = requestline.split()
    if len(words) == 0:
        return False
    if len(words) >= 3:  # Enough to determine protocol version
        version = words[-1]
        ...
        self.request_version = version
    if not 2 <= len(words) <= 3:
        self.send_error(HTTPStatus.BAD_REQUEST, "Bad request syntax (%r)" % requestline)
        return False
    command, path = words[:2]
    if len(words) == 2:
        self.close_connection = True
        if command != 'GET':
            self.send_error(HTTPStatus.BAD_REQUEST,
                            "Bad HTTP/0.9 request type (%r)" % command)
            return False
    self.command, self.path = command, path
    if self.path.startswith('//'):
        self.path = '/' + self.path.lstrip('/')  # Reduce to a single /
    try:
        self.headers = http.client.parse_headers(self.rfile, _class=self.MessageClass)
    except http.client.LineTooLong as err:
        self.send_error(HTTPStatus.REQUEST_HEADER_FIELDS_TOO_LARGE, "Line too long", str(err))
        return False
    except http.client.HTTPException as err:
        self.send_error(HTTPStatus.REQUEST_HEADER_FIELDS_TOO_LARGE, "Too many headers", str(err))
        return False
  \<close>
  The handler's \<^verbatim>\<open>protocol_version\<close> is \<^verbatim>\<open>HTTP/1.0\<close>, so \<^verbatim>\<open>close_connection\<close> stays \<^verbatim>\<open>True\<close>
  and the \<^verbatim>\<open>Expect\<close> header is not looked at. \<open>version_of\<close> is \<^verbatim>\<open>self.request_version\<close> once
  the version has been accepted, and \<open>reduce_slashes\<close> the reduction of \<^verbatim>\<open>self.path\<close>.
\<close>

definition reduce_slashes :: "string \<Rightarrow> string" where
  "reduce_slashes path =
     (if startswith path ''//'' then ''/'' @ dropWhile (\<lambda>x. x = CHR ''/'') path else path)"

definition version_of :: "string list \<Rightarrow> string" where
  "version_of words = (if length words \<ge> 3 then last words else ''HTTP/0.9'')"

definition parse_request :: "lib \<Rightarrow> conn \<Rightarrow> response option + request" where
  "parse_request l c =
     (let requestline = rstrip_crlf (raw_requestline c);
          words = split_ws [] requestline
      in
      if length words = 0 then Inl None
      else
        (case (if length words \<ge> 3 then check_version l (last words) else None) of
           Some r \<Rightarrow> Inl (Some r)
         | None \<Rightarrow>
             if \<not> (2 \<le> length words \<and> length words \<le> 3) then
               Inl (Some (send_error l (version_of words) None 400
                            ''Bad request syntax (%r)'' requestline))
             else if length words = 2 \<and> words ! 0 \<noteq> ''GET'' then
               Inl (Some (send_error l (version_of words) None 400
                            ''Bad HTTP/0.9 request type (%r)'' (words ! 0)))
             else
               (case parsed_headers c of
                  Inl message \<Rightarrow>
                    Inl (Some (send_error l (version_of words) (Some (words ! 0)) 431
                                 message ''''))
                | Inr h \<Rightarrow>
                    Inr \<lparr>command = words ! 0,
                         request_path = reduce_slashes (words ! 1),
                         request_version = version_of words,
                         request_headers = h\<rparr>)))"

text \<open>
  \<^verbatim>\<open>
    self.raw_requestline = self.rfile.readline(65537)
    if len(self.raw_requestline) > 65536:
        self.requestline = ''
        self.request_version = ''
        self.command = ''
        self.send_error(HTTPStatus.REQUEST_URI_TOO_LONG)
        return
    if not self.raw_requestline:
        self.close_connection = True
        return
    if not self.parse_request():
        # An error code has been sent, just exit
        return
    mname = 'do_' + self.command
    if not hasattr(self, mname):
        self.send_error(HTTPStatus.NOT_IMPLEMENTED, "Unsupported method (%r)" % self.command)
        return
    method = getattr(self, mname)
    method()
  \<close>
  The attributes of \<^verbatim>\<open>SimpleHTTPRequestHandler\<close> whose names start with \<^verbatim>\<open>do_\<close> are \<^verbatim>\<open>do_GET\<close>
  and \<^verbatim>\<open>do_HEAD\<close>. \<open>do_method\<close> is the part from \<^verbatim>\<open>mname = ...\<close> on, for a request that
  \<^verbatim>\<open>parse_request\<close> has accepted. The results are the calls made to the file system and
  the response, if one is sent, or the exception.
\<close>

definition do_method :: "lib \<Rightarrow> os \<Rightarrow> string \<Rightarrow> request \<Rightarrow> fs_call list \<times> (exn + response)" where
  "do_method l fs directory req =
     (if command req = ''GET'' then do_GET l fs directory req
      else if command req = ''HEAD'' then do_HEAD l fs directory req
      else ([], Inr (send_error l (request_version req) (Some (command req)) 501
                       ''Unsupported method (%r)'' (command req))))"

definition handle_one_request ::
  "lib \<Rightarrow> os \<Rightarrow> string \<Rightarrow> conn \<Rightarrow> fs_call list \<times> (exn + response option)" where
  "handle_one_request l fs directory c =
     (if length (raw_requestline c) > 65536 then
        ([], Inr (Some (send_error l '''' (Some '''') 414 ''Request-URI Too Long'' '''')))
      else if raw_requestline c = '''' then ([], Inr None)
      else
        (case parse_request l c of
           Inl r \<Rightarrow> ([], Inr r)
         | Inr req \<Rightarrow>
             (case do_method l fs directory req of
                (calls, Inl e) \<Rightarrow> (calls, Inl e)
              | (calls, Inr r) \<Rightarrow> (calls, Inr (Some r)))))"

text \<open>
  The handler class as the server calls it: \<^verbatim>\<open>__init__\<close> takes \<^verbatim>\<open>os.getcwd()\<close> as
  \<^verbatim>\<open>directory\<close> and runs \<^verbatim>\<open>handle()\<close>, which runs \<^verbatim>\<open>handle_one_request()\<close> once, since
  \<^verbatim>\<open>close_connection\<close> is \<^verbatim>\<open>True\<close> after it. A socket error is an \<^verbatim>\<open>OSError\<close> that the
  handler does not catch. What the server sees of the handler is the response or the
  exception.
\<close>

definition SimpleHTTPRequestHandler :: "lib \<Rightarrow> os \<Rightarrow> string \<Rightarrow> (conn, response option) handler" where
  "SimpleHTTPRequestHandler l fs getcwd c =
     (case io_error c of
        Some errno \<Rightarrow> Inl (OSError errno)
      | None \<Rightarrow> snd (handle_one_request l fs getcwd c))"

text \<open>
  \<^verbatim>\<open>Handler = http.server.SimpleHTTPRequestHandler\<close>. The server runs the handler once for
  every accepted connection; a connection comes here together with the state of the file
  system at the time it is handled, since files may change between two requests.
\<close>

definition Handler :: "lib \<Rightarrow> string \<Rightarrow> (os \<times> conn, response option) handler" where
  "Handler l getcwd request =
     (case request of (fs, c) \<Rightarrow> SimpleHTTPRequestHandler l fs getcwd c)"

subsection \<open>A working directory to run the handler in\<close>

text \<open>
  The directory \<^verbatim>\<open>/srv/www\<close> holds one file, \<^verbatim>\<open>index.html\<close>, and one empty directory,
  \<^verbatim>\<open>pub\<close>; outside it there is \<^verbatim>\<open>/etc/passwd\<close>. The formatting parameters are simple
  stand-ins: no \<^verbatim>\<open>%\<close> escape is decoded, and the pages are short texts.
\<close>

definition demo_fs :: os where
  "demo_fs =
     \<lparr>isdir = (\<lambda>p. p \<in> set [''/srv/www'', ''/srv/www/'', ''/srv/www/pub'', ''/srv/www/pub/'',
                                ''/'', ''/etc'', ''/etc/'', ''/srv'', ''/srv/'']),
      isfile = (\<lambda>p. p \<in> set [''/srv/www/index.html'', ''/etc/passwd'']),
      islink = (\<lambda>p. False),
      open_rb = (\<lambda>p. if CHR 0x00 \<in> set p then Inl (OtherException ''ValueError'')
                       else if p = ''/srv/www/index.html''
                       then Inr \<lparr>contents = ''<h1>hello</h1>'', st_mtime = 1700000000\<rparr>
                       else if p = ''/etc/passwd''
                       then Inr \<lparr>contents = ''root:x:0:0'', st_mtime = 1600000000\<rparr>
                       else if p \<in> set [''/srv/www'', ''/srv/www/'', ''/srv/www/pub'',
                                         ''/srv/www/pub/'', ''/'', ''/etc'', ''/etc/'',
                                         ''/srv'', ''/srv/'']
                       then Inl (OSError 21)
                       else Inl (OSError 2)),
      listdir = (\<lambda>p. if CHR 0x00 \<in> set p then Inl (OtherException ''ValueError'')
                       else if p \<in> set [''/srv/www'', ''/srv/www/'']
                       then Inr [''index.html'', ''pub'']
                       else if p \<in> set [''/srv/www/pub'', ''/srv/www/pub/''] then Inr []
                       else Inl (OSError 2))\<rparr>"



definition demo_lib :: lib where
  "demo_lib =
     \<lparr>pct_decode = (\<lambda>s. s),
      urlsplit_path = (\<lambda>s. Some (split_first CHR ''#'' (split_first CHR ''?'' s))),
      redirect_url = (\<lambda>s. s @ ''/''),
      guess_type = (\<lambda>p. if endswith p ''.html'' then ''text/html''
                          else ''application/octet-stream''),
      error_page = (\<lambda>c message arg. message),
      render_listing = (\<lambda>p entries. sep_join ''; '' (map fst entries)),
      date_time_string = (\<lambda>t. if t = 1700000000 then ''Tue, 14 Nov 2023 22:13:20 GMT''
                                else ''Sun, 13 Sep 2020 12:26:40 GMT''),
      filesystemencoding = ''utf-8''\<rparr>"

text \<open>A connection that delivers a request line and no header.\<close>

definition plain :: "string \<Rightarrow> conn" where
  "plain line =
     \<lparr>raw_requestline = line,
      parsed_headers = Inr \<lparr>if_modified_since = None, if_none_match = False\<rparr>,
      io_error = None\<rparr>"

text \<open>A connection whose headers \<^verbatim>\<open>http.client.parse_headers\<close> refuses.\<close>

definition long_header :: "string \<Rightarrow> conn" where
  "long_header line =
     \<lparr>raw_requestline = line, parsed_headers = Inl ''Line too long'', io_error = None\<rparr>"


text \<open>A request for a path with a NUL character.\<close>

definition nul_request :: conn where
  "nul_request = plain (''GET /a'' @ [CHR 0x00] @ ''b HTTP/1.1'')"

subsection \<open>Notions the properties are stated with\<close>

text \<open>
  A request line that \<^verbatim>\<open>handle_one_request\<close> and \<^verbatim>\<open>parse_request\<close> accept with a version:
  it is not longer than 65536 bytes, it has the three words \<open>m\<close>, \<open>p\<close> and \<open>v\<close>, the
  version \<open>v\<close> is \<^verbatim>\<open>HTTP/\<close> with two numbers, the first below 2, and the headers are read
  as \<open>h\<close>.
\<close>

definition request_line :: "conn \<Rightarrow> string \<Rightarrow> string \<Rightarrow> string \<Rightarrow> headers_in \<Rightarrow> bool" where
  "request_line c m p v h =
     (length (raw_requestline c) \<le> 65536
      \<and> split_ws [] (rstrip_crlf (raw_requestline c)) = [m, p, v]
      \<and> (case parse_version v of Some (major, minor) \<Rightarrow> major < 2 | None \<Rightarrow> False)
      \<and> parsed_headers c = Inr h)"

text \<open>The path that \<^verbatim>\<open>send_head\<close> opens for the request path \<open>p\<close>.\<close>

definition local_path :: "lib \<Rightarrow> string \<Rightarrow> string \<Rightarrow> string" where
  "local_path l directory p = translate_path (pct_decode l) directory (reduce_slashes p)"

text \<open>A \<^verbatim>\<open>GET\<close> request without conditional headers, as \<^verbatim>\<open>parse_request\<close> leaves it.\<close>

definition GET :: "string \<Rightarrow> request" where
  "GET p = \<lparr>command = ''GET'', request_path = p, request_version = ''HTTP/1.1'',
            request_headers = \<lparr>if_modified_since = None, if_none_match = False\<rparr>\<rparr>"



text \<open>
  What the handler gives the server, reduced to the code and the body of the response,
  and the answers in a trace.
\<close>

definition answer :: "exn + response option \<Rightarrow> exn + (nat option \<times> string) option" where
  "answer x =
     (case x of
        Inl e \<Rightarrow> Inl e
      | Inr None \<Rightarrow> Inr None
      | Inr (Some r) \<Rightarrow> Inr (Some (code r, body r)))"


section \<open>Observations\<close>

text \<open>What is read off a trace.\<close>

fun is_Print :: "'resp action \<Rightarrow> bool" where
  "is_Print (Print s) = True"
| "is_Print a = False"

fun binds :: "'resp action list \<Rightarrow> address list" where
  "binds [] = []"
| "binds (SockBind a # as) = a # binds as"
| "binds (b # as) = binds as"

definition startup_ok :: "world \<Rightarrow> bool" where
  "startup_ok w = (bind_error w ('''', PORT) = None \<and> listen_error w = None)"

text \<open>A world in which the port is free, and one in which it is taken (errno 98).\<close>

definition free_world :: world where
  "free_world = \<lparr>bind_error = (\<lambda>a. None), listen_error = None, argv = [], environ = []\<rparr>"

definition busy_world :: world where
  "busy_world = \<lparr>bind_error = (\<lambda>a. Some 98), listen_error = None, argv = [], environ = []\<rparr>"




text \<open>A handler that answers every request with the request itself, for running the script.\<close>

definition echo :: "(string, string) handler" where
  "echo request = Inr request"

section \<open>Properties of the script\<close>

lemma handle_request_noblock_no_Print:
  "a \<in> set (snd (handle_request_noblock h request)) \<Longrightarrow> \<not> is_Print a"
  by (auto simp: handle_request_noblock_def split: sum.splits if_splits)

lemma serve_forever_no_Print:
  "a \<in> set (snd (serve_forever h evs)) \<Longrightarrow> \<not> is_Print a"
proof (induction h evs rule: serve_forever.induct)
  case (4 h request evs)
  obtain r acts where hr: "handle_request_noblock h request = (r, acts)"
    by (cases "handle_request_noblock h request")
  obtain r' acts' where sf: "serve_forever h evs = (r', acts')"
    by (cases "serve_forever h evs")
  have inner: "\<not> is_Print b" if "b \<in> set acts" for b
    using handle_request_noblock_no_Print [of b h request] that hr by simp
  show ?case
  proof (cases r)
    case None
    with 4 hr sf inner show ?thesis by auto
  next
    case (Some e)
    with 4 hr inner show ?thesis by auto
  qed
qed auto

lemma TCPServer_init_binds:
  "binds (snd (TCPServer_init w a)) = [a]"
  by (simp add: TCPServer_init_def split: option.splits)

lemma serve_forever_binds:
  "binds (snd (serve_forever h evs)) = []"
proof (induction h evs rule: serve_forever.induct)
  case (4 h request evs)
  then show ?case
    by (auto simp: handle_request_noblock_def split: sum.splits if_splits prod.splits option.splits)
qed auto

lemma binds_append: "binds (xs @ ys) = binds xs @ binds ys"
  by (induction xs rule: binds.induct) auto



lemma exit_status_pos: "exit_status e \<noteq> 0"
  by (cases e) auto

text \<open>
  C9. The script has no configuration: whatever the command line, the environment, the
  handler and the events are, the one address it ever binds is the wildcard address
  \<^verbatim>\<open>""\<close> with port 8000.
\<close>

theorem C9_fixed_wildcard_address_and_port:
  "binds (trace (main h w evs)) = [('''', 8000)]"
proof -
  have "binds (snd (serve_forever h evs)) = []"
    by (rule serve_forever_binds)
  then show ?thesis
    by (auto simp: main_def TCPServer_init_def uncaught_def binds_append PORT_def
        split: option.splits prod.splits)
qed

text \<open>
  C2. When the socket is bound and listening, the process prints the line
  \<^verbatim>\<open>good morning\<close> exactly once, after \<^verbatim>\<open>bind\<close> and \<^verbatim>\<open>listen\<close> and before the serve loop is
  entered; when the socket cannot be set up, nothing is printed.
\<close>

theorem C2_good_morning_once_after_bind:
  "(startup_ok w \<longrightarrow>
      (\<exists>acts. trace (main h w evs) =
          [SockBind ('''', 8000), SockListen, Print ''good morning'', EnterServe] @ acts
        \<and> (\<forall>a \<in> set acts. \<not> is_Print a)))
   \<and> (\<not> startup_ok w \<longrightarrow> (\<forall>a \<in> set (trace (main h w evs)). \<not> is_Print a))"
proof (intro conjI impI)
  assume ok: "startup_ok w"
  obtain r' acts' where s: "serve_forever h evs = (r', acts')"
    by (cases "serve_forever h evs")
  have np: "\<forall>a \<in> set acts'. \<not> is_Print a"
    using serve_forever_no_Print [of _ h evs] s by simp
  from ok s np show "\<exists>acts. trace (main h w evs) =
          [SockBind ('''', 8000), SockListen, Print ''good morning'', EnterServe] @ acts
        \<and> (\<forall>a \<in> set acts. \<not> is_Print a)"
    by (cases r') (simp_all add: main_def startup_ok_def TCPServer_init_def uncaught_def PORT_def)
next
  assume "\<not> startup_ok w"
  then show "\<forall>a \<in> set (trace (main h w evs)). \<not> is_Print a"
    by (auto simp: main_def startup_ok_def TCPServer_init_def uncaught_def split: option.splits)
qed

theorem C2_good_morning_witness:
  "startup_ok free_world
   \<and> trace (main echo free_world [Accept ''GET /'', Interrupt]) =
       [SockBind ('''', 8000), SockListen, Print ''good morning'', EnterServe,
        Respond ''GET /'', CloseRequest, SockClose, Traceback KeyboardInterrupt]
   \<and> \<not> startup_ok busy_world
   \<and> trace (main echo busy_world [Accept ''GET /'', Interrupt]) =
       [SockBind ('''', 8000), SockClose, Traceback (OSError 98)]"
  using C2_good_morning_once_after_bind [of free_world echo "[Accept ''GET /'', Interrupt]"]
    C2_good_morning_once_after_bind [of busy_world echo "[Accept ''GET /'', Interrupt]"]
  by (simp add: startup_ok_def free_world_def busy_world_def main_def TCPServer_init_def
      handle_request_noblock_def echo_def uncaught_def PORT_def)

text \<open>
  C3. When \<^verbatim>\<open>bind\<close> or \<^verbatim>\<open>listen\<close> fails, whatever the errno, the \<^verbatim>\<open>OSError\<close> is caught
  nowhere: the process writes the traceback, exits with status 1 and never enters the
  serve loop.
\<close>

theorem C3_bind_failure_is_fatal:
  assumes "\<not> startup_ok w"
  shows "\<exists>errno. status (main h w evs) = Exited 1
           \<and> last (trace (main h w evs)) = Traceback (OSError errno)
           \<and> EnterServe \<notin> set (trace (main h w evs))"
  using assms
  by (auto simp: main_def startup_ok_def TCPServer_init_def uncaught_def split: option.splits)

theorem C3_bind_failure_witness:
  "\<not> startup_ok busy_world
   \<and> main echo busy_world [Accept ''GET /''] =
       \<lparr>trace = [SockBind ('''', 8000), SockClose, Traceback (OSError 98)], status = Exited 1\<rparr>"
  using C3_bind_failure_is_fatal [of busy_world echo "[Accept ''GET /'']"]
  by (simp add: startup_ok_def busy_world_def main_def TCPServer_init_def uncaught_def PORT_def)







section \<open>Properties of the handler\<close>

lemma wire_sel:
  "code (wire v c hs b) = (if v = ''HTTP/0.9'' then None else Some c)"
  "headers (wire v c hs b) = (if v = ''HTTP/0.9'' then [] else hs)"
  "body (wire v c hs b) = b"
  by (simp_all add: wire_def)

lemma send_error_code:
  "code (send_error l v cmd c m a) = (if v = ''HTTP/0.9'' then None else Some c)"
  by (simp add: send_error_def Let_def wire_sel)

lemma send_error_body:
  "body (send_error l v cmd c m a) = '''' \<or> body (send_error l v cmd c m a) = error_page l c m a"
  by (simp add: send_error_def Let_def wire_sel)








lemma plain_sel:
  "raw_requestline (plain line) = line"
  "io_error (plain line) = None"
  "parsed_headers (plain line) = Inr \<lparr>if_modified_since = None, if_none_match = False\<rparr>"
  by (simp_all add: plain_def)

text \<open>What \<^verbatim>\<open>handle_one_request\<close> does with a request line that is accepted.\<close>

lemma request_line_parse:
  assumes "request_line c m p v h"
  shows "parse_request l c =
      Inr \<lparr>command = m, request_path = reduce_slashes p, request_version = v,
           request_headers = h\<rparr>"
proof -
  from assms have w: "split_ws [] (rstrip_crlf (raw_requestline c)) = [m, p, v]"
    and h: "parsed_headers c = Inr h"
    by (simp_all add: request_line_def)
  from assms obtain major minor where "parse_version v = Some (major, minor)" "major < 2"
    by (auto simp: request_line_def split: option.splits)
  then have cv: "check_version l v = None"
    by (simp add: check_version_def)
  show ?thesis
    by (simp add: parse_request_def Let_def w h cv version_of_def)
qed

lemma request_line_nonempty:
  assumes "request_line c m p v h"
  shows "raw_requestline c \<noteq> ''''"
proof
  assume "raw_requestline c = ''''"
  then have "split_ws [] (rstrip_crlf (raw_requestline c)) = []"
    by (simp add: rstrip_crlf_def)
  with assms show False
    by (simp add: request_line_def)
qed



lemma handle_parsed:
  assumes "\<not> length (raw_requestline c) > 65536" and "raw_requestline c \<noteq> ''''"
    and "parse_request l c = Inr req"
  shows "snd (handle_one_request l fs d c) = map_sum id Some (snd (do_method l fs d req))"
    and "fst (handle_one_request l fs d c) = fst (do_method l fs d req)"
proof -
  obtain calls x where dm: "do_method l fs d req = (calls, x)"
    by (cases "do_method l fs d req")
  with assms show "snd (handle_one_request l fs d c) = map_sum id Some (snd (do_method l fs d req))"
    and "fst (handle_one_request l fs d c) = fst (do_method l fs d req)"
    by (cases x; simp add: handle_one_request_def)+
qed

lemma handle_refused:
  assumes "\<not> length (raw_requestline c) > 65536" and "raw_requestline c \<noteq> ''''"
    and "parse_request l c = Inl r"
  shows "handle_one_request l fs d c = ([], Inr r)"
  using assms by (simp add: handle_one_request_def)

lemma plain_short:
  "length line \<le> 60 \<Longrightarrow> \<not> length (raw_requestline (plain line)) > 65536"
  by (simp add: plain_sel)


lemma long_header_sel:
  "raw_requestline (long_header line) = line"
  "io_error (long_header line) = None"
  by (simp_all add: long_header_def)


text \<open>The two results of each method taken apart.\<close>

lemma do_GET_results:
  "fst (do_GET l fs d req) = fst (send_head l fs d req)"
  "snd (do_GET l fs d req) =
     (case snd (send_head l fs d req) of
        Inl e \<Rightarrow> Inl e
      | Inr (r, Some f) \<Rightarrow> Inr (r\<lparr>body := body r @ f\<rparr>)
      | Inr (r, None) \<Rightarrow> Inr r)"
  by (cases "send_head l fs d req"; simp add: do_GET_def split: sum.splits option.splits)+


lemma send_head_not_dir:
  assumes "\<not> isdir fs (translate_path (pct_decode l) d (request_path req))"
  shows "snd (send_head l fs d req)
      = snd (send_file l fs req (translate_path (pct_decode l) d (request_path req)))"
  using assms
  by (cases "send_file l fs req (translate_path (pct_decode l) d (request_path req))")
     (simp add: send_head_def Let_def)

lemma handle_request_line_snd:
  assumes "request_line c m p v h"
  shows "snd (handle_one_request l fs d c) =
      map_sum id Some (snd (do_method l fs d \<lparr>command = m, request_path = reduce_slashes p,
                               request_version = v, request_headers = h\<rparr>))"
  by (rule handle_parsed(1))
     (use assms request_line_nonempty [OF assms] request_line_parse [OF assms] in
       \<open>simp_all add: request_line_def\<close>)



text \<open>
  C6, as the specification states it, fails where no status line is written. For a
  request line of two words, \<^verbatim>\<open>GET /missing\<close>, the request version is \<^verbatim>\<open>HTTP/0.9\<close> and the
  handler sends the error page alone, without status line; the same holds for the
  version \<^verbatim>\<open>HTTP/0.9\<close> written out. A request line with the version \<^verbatim>\<open>HTTP/2.0\<close> is
  refused before the path is looked at, again without status line, and one whose
  headers cannot be read is answered 431. For a path with a NUL character \<^verbatim>\<open>open\<close>
  raises \<^verbatim>\<open>ValueError\<close>, which \<^verbatim>\<open>send_head\<close> does not catch: no response is sent.
\<close>

theorem C6_no_status_line_counterexample:
  "answer (snd (handle_one_request demo_lib demo_fs ''/srv/www'' (plain ''GET /missing'')))
     = Inr (Some (None, ''File not found''))
   \<and> answer (snd (handle_one_request demo_lib demo_fs ''/srv/www''
                     (plain ''GET /missing HTTP/0.9'')))
       = Inr (Some (None, ''File not found''))
   \<and> answer (snd (handle_one_request demo_lib demo_fs ''/srv/www''
                     (plain ''GET /missing HTTP/2.0'')))
       = Inr (Some (None, ''Invalid HTTP version (%s)''))
   \<and> answer (snd (handle_one_request demo_lib demo_fs ''/srv/www''
                     (long_header ''GET /missing HTTP/1.1'')))
       = Inr (Some (Some 431, ''Line too long''))
   \<and> answer (snd (handle_one_request demo_lib demo_fs ''/srv/www''
                     nul_request))
       = Inl (OtherException ''ValueError'')"
proof -
  have p1: "parse_request demo_lib (plain ''GET /missing'')
      = Inr ((GET ''/missing'')\<lparr>request_version := ''HTTP/0.9''\<rparr>)"
    and p2: "parse_request demo_lib (plain ''GET /missing HTTP/0.9'')
      = Inr ((GET ''/missing'')\<lparr>request_version := ''HTTP/0.9''\<rparr>)"
    and p5: "parse_request demo_lib nul_request
      = Inr (GET (''/a'' @ [CHR 0x00] @ ''b''))"
    by code_simp+
  obtain r3 where p3: "parse_request demo_lib (plain ''GET /missing HTTP/2.0'') = Inl (Some r3)"
    and c3: "code r3 = None" "body r3 = ''Invalid HTTP version (%s)''"
  proof -
    have "map_sum (map_option (\<lambda>r. (code r, body r))) command
        (parse_request demo_lib (plain ''GET /missing HTTP/2.0''))
      = Inl (Some (None, ''Invalid HTTP version (%s)''))"
      by code_simp
    then show ?thesis
      by (cases "parse_request demo_lib (plain ''GET /missing HTTP/2.0'')") (auto intro: that)
  qed
  obtain r4 where p4: "parse_request demo_lib
           (long_header ''GET /missing HTTP/1.1'')
         = Inl (Some r4)"
    and c4: "code r4 = Some 431" "body r4 = ''Line too long''"
  proof -
    have "map_sum (map_option (\<lambda>r. (code r, body r))) command
        (parse_request demo_lib
           (long_header ''GET /missing HTTP/1.1''))
      = Inl (Some (Some 431, ''Line too long''))"
      by code_simp
    then show ?thesis
      by (cases "parse_request demo_lib
           (long_header ''GET /missing HTTP/1.1'')")
         (auto intro: that)
  qed
  have d1: "answer (map_sum id Some (snd (do_method demo_lib demo_fs ''/srv/www''
        ((GET ''/missing'')\<lparr>request_version := ''HTTP/0.9''\<rparr>))))
      = Inr (Some (None, ''File not found''))"
    and d5: "answer (map_sum id Some (snd (do_method demo_lib demo_fs ''/srv/www''
        (GET (''/a'' @ [CHR 0x00] @ ''b'')))))
      = Inl (OtherException ''ValueError'')"
    by code_simp+
  have a1: "answer (snd (handle_one_request demo_lib demo_fs ''/srv/www'' (plain ''GET /missing'')))
     = Inr (Some (None, ''File not found''))"
    using d1 by (simp add: handle_parsed(1) [OF _ _ p1] plain_sel)
  have a2: "answer (snd (handle_one_request demo_lib demo_fs ''/srv/www''
                     (plain ''GET /missing HTTP/0.9'')))
       = Inr (Some (None, ''File not found''))"
    using d1 by (simp add: handle_parsed(1) [OF _ _ p2] plain_sel)
  have a3: "answer (snd (handle_one_request demo_lib demo_fs ''/srv/www''
                     (plain ''GET /missing HTTP/2.0'')))
       = Inr (Some (None, ''Invalid HTTP version (%s)''))"
    using c3 by (simp add: handle_refused [OF _ _ p3] plain_sel answer_def)
  have a4: "answer (snd (handle_one_request demo_lib demo_fs ''/srv/www''
                     (long_header ''GET /missing HTTP/1.1'')))
       = Inr (Some (Some 431, ''Line too long''))"
    using c4 by (simp add: handle_refused [OF _ _ p4] long_header_sel answer_def)
  have a5: "answer (snd (handle_one_request demo_lib demo_fs ''/srv/www''
                     nul_request))
       = Inl (OtherException ''ValueError'')"
  proof -
    have "\<not> length (raw_requestline nul_request) > 65536" "raw_requestline nul_request \<noteq> ''''"
      by (simp_all add: nul_request_def plain_sel)
    from handle_parsed(1) [OF this p5] d5 show ?thesis by simp
  qed
  from a1 a2 a3 a4 a5 show ?thesis by simp
qed

text \<open>
  C6, amended. For a \<^verbatim>\<open>GET\<close> request whose request line is accepted with a version
  other than \<^verbatim>\<open>HTTP/0.9\<close>: if the path that \<^verbatim>\<open>send_head\<close> opens is not a directory and
  \<^verbatim>\<open>open\<close> fails on it with an \<^verbatim>\<open>OSError\<close>, the response is sent with the status 404.
\<close>

theorem C6_missing_file_404:
  assumes "request_line c ''GET'' p v h"
    and "v \<noteq> ''HTTP/0.9''"
    and "\<not> isdir fs (local_path l d p)"
    and "open_rb fs (local_path l d p) = Inl (OSError errno)"
  shows "\<exists>r. snd (handle_one_request l fs d c) = Inr (Some r) \<and> code r = Some 404"
proof -
  let ?req = "\<lparr>command = ''GET'', request_path = reduce_slashes p, request_version = v,
               request_headers = h\<rparr>"
  let ?r = "send_error l v (Some ''GET'') 404 ''File not found'' ''''"
  have sf: "snd (send_file l fs ?req (local_path l d p)) = Inr (?r, None)"
    using assms(4) by (simp add: send_file_def)
  have "snd (send_head l fs d ?req) = Inr (?r, None)"
    using assms(3) sf send_head_not_dir [of fs l d ?req]
    by (simp add: local_path_def)
  then have "snd (do_GET l fs d ?req) = Inr ?r"
    by (simp add: do_GET_results)
  then have "snd (do_method l fs d ?req) = Inr ?r"
    by (simp add: do_method_def)
  then have "snd (handle_one_request l fs d c) = Inr (Some ?r)"
    by (simp add: handle_request_line_snd [OF assms(1)])
  then show ?thesis
    using assms(2) by (simp add: send_error_code)
qed

theorem C6_missing_file_witness:
  "request_line (plain ''GET /missing HTTP/1.1'') ''GET'' ''/missing'' ''HTTP/1.1''
      \<lparr>if_modified_since = None, if_none_match = False\<rparr>
   \<and> ''HTTP/1.1'' \<noteq> ''HTTP/0.9''
   \<and> \<not> isdir demo_fs (local_path demo_lib ''/srv/www'' ''/missing'')
   \<and> open_rb demo_fs (local_path demo_lib ''/srv/www'' ''/missing'') = Inl (OSError 2)
   \<and> answer (snd (handle_one_request demo_lib demo_fs ''/srv/www''
                     (plain ''GET /missing HTTP/1.1'')))
       = Inr (Some (Some 404, ''File not found''))"
proof -
  have w: "split_ws [] (rstrip_crlf ''GET /missing HTTP/1.1'') = [''GET'', ''/missing'', ''HTTP/1.1'']"
    "parse_version ''HTTP/1.1'' = Some (1, 1)"
    by code_simp+
  have h1: "request_line (plain ''GET /missing HTTP/1.1'') ''GET'' ''/missing'' ''HTTP/1.1''
      \<lparr>if_modified_since = None, if_none_match = False\<rparr>"
    by (simp add: request_line_def plain_sel w)
  have h2: "''HTTP/1.1'' \<noteq> ''HTTP/0.9''"
    by simp
  have h3: "\<not> isdir demo_fs (local_path demo_lib ''/srv/www'' ''/missing'')"
    and h4: "open_rb demo_fs (local_path demo_lib ''/srv/www'' ''/missing'') = Inl (OSError 2)"
    by code_simp+
  from C6_missing_file_404 [OF h1 h2 h3 h4]
  obtain r where r: "snd (handle_one_request demo_lib demo_fs ''/srv/www''
      (plain ''GET /missing HTTP/1.1'')) = Inr (Some r)" and c: "code r = Some 404"
    by blast
  have "answer (map_sum id Some (snd (do_method demo_lib demo_fs ''/srv/www'' (GET ''/missing''))))
      = Inr (Some (Some 404, ''File not found''))"
    by code_simp
  moreover have "parse_request demo_lib (plain ''GET /missing HTTP/1.1'') = Inr (GET ''/missing'')"
    by code_simp
  ultimately have a: "answer (snd (handle_one_request demo_lib demo_fs ''/srv/www''
                     (plain ''GET /missing HTTP/1.1'')))
       = Inr (Some (Some 404, ''File not found''))"
    by (simp add: handle_parsed(1) [where req = "GET ''/missing''"] plain_sel)
  from h1 h2 h3 h4 a r c show ?thesis by simp
qed





















section \<open>Requests that fail and the serve loop\<close>


















end
